theory Spec2Isabelle
  imports Complex_Main
begin

section \<open>JavaScript values used by the scripts\<close>

text \<open>
  The repository holds three versions of \<^verbatim>\<open>scroll-animations.ts\<close>:
  \<^item> \<open>MotionFull\<close>: the Motion One controller with per-element options and a
    fallback branch (\<^verbatim>\<open>src/unnamed/part_000\<close>);
  \<^item> \<open>MotionMinimal\<close>: the Motion One controller with fixed minimal timings and
    no hiding of content (\<^verbatim>\<open>src/src/scripts/scroll-animations.ts\<close>, lines 1-348);
  \<^item> \<open>AnimeJs\<close>: the anime.js controller
    (\<^verbatim>\<open>src/src/scripts/scroll-animations.ts\<close>, lines 349-911).
  Every function below takes the version as its first argument where the versions differ.
\<close>

datatype variant = MotionFull | MotionMinimal | AnimeJs

text \<open>
  A JavaScript number is an IEEE double. The model keeps the three special values and
  takes every finite value as an exact rational: rounding to the nearest double, the sign
  of zero and overflow to infinity are left out.
\<close>

datatype jsnum = Num rat | NaN | PosInf | NegInf

fun js_neg :: "jsnum \<Rightarrow> jsnum" where
  "js_neg (Num a) = Num (- a)"
| "js_neg NaN = NaN"
| "js_neg PosInf = NegInf"
| "js_neg NegInf = PosInf"

fun js_add :: "jsnum \<Rightarrow> jsnum \<Rightarrow> jsnum" where
  "js_add (Num a) (Num b) = Num (a + b)"
| "js_add NaN y = NaN"
| "js_add x NaN = NaN"
| "js_add PosInf NegInf = NaN"
| "js_add NegInf PosInf = NaN"
| "js_add PosInf y = PosInf"
| "js_add NegInf y = NegInf"
| "js_add (Num a) y = y"

fun js_mul :: "jsnum \<Rightarrow> jsnum \<Rightarrow> jsnum" where
  "js_mul (Num a) (Num b) = Num (a * b)"
| "js_mul NaN y = NaN"
| "js_mul x NaN = NaN"
| "js_mul (Num a) y = (if a = 0 then NaN else if 0 < a then y else js_neg y)"
| "js_mul x (Num b) = (if b = 0 then NaN else if 0 < b then x else js_neg x)"
| "js_mul PosInf y = y"
| "js_mul NegInf y = js_neg y"

text \<open>Division by a positive finite constant (the scripts only divide by 1000).\<close>

fun js_div_const :: "jsnum \<Rightarrow> rat \<Rightarrow> jsnum" where
  "js_div_const (Num a) d = Num (a / d)"
| "js_div_const x d = x"

text \<open>\<^verbatim>\<open>x < y\<close> on numbers: false as soon as one side is NaN.\<close>

fun js_lt :: "jsnum \<Rightarrow> jsnum \<Rightarrow> bool" where
  "js_lt (Num a) (Num b) = (a < b)"
| "js_lt NaN y = False"
| "js_lt x NaN = False"
| "js_lt x NegInf = False"
| "js_lt PosInf y = False"
| "js_lt NegInf y = True"
| "js_lt (Num a) PosInf = True"

subsection \<open>parseInt and parseFloat\<close>

text \<open>
  Strings are byte strings here; the scripts' attribute values are taken as ASCII. The
  white space skipped by \<^verbatim>\<open>parseInt\<close> and \<^verbatim>\<open>parseFloat\<close> is TAB, LF, VT, FF, CR and
  SPACE.
\<close>

definition is_space :: "char \<Rightarrow> bool" where
  "is_space c = (let n = (of_char c :: nat) in (9 \<le> n \<and> n \<le> 13) \<or> n = 32)"

definition digit_of :: "nat \<Rightarrow> char \<Rightarrow> nat option" where
  "digit_of R c =
     (let n = (of_char c :: nat);
          d = (if 48 \<le> n \<and> n \<le> 57 then Some (n - 48)
               else if 97 \<le> n \<and> n \<le> 122 then Some (n - 87)
               else if 65 \<le> n \<and> n \<le> 90 then Some (n - 55)
               else None)
      in case d of None \<Rightarrow> None | Some k \<Rightarrow> if k < R then Some k else None)"

definition is_digit :: "char \<Rightarrow> bool" where
  "is_digit c = (digit_of 10 c \<noteq> None)"

definition digits_value :: "nat \<Rightarrow> string \<Rightarrow> nat" where
  "digits_value R ds =
     foldl (\<lambda>acc c. acc * R + (case digit_of R c of None \<Rightarrow> 0 | Some k \<Rightarrow> k)) 0 ds"

text \<open>An optional leading sign: the factor and the rest of the string.\<close>

definition strip_sign :: "string \<Rightarrow> int \<times> string" where
  "strip_sign s =
     (case s of
        [] \<Rightarrow> (1, s)
      | c # r \<Rightarrow> if c = CHR ''-'' then (- 1, r) else if c = CHR ''+'' then (1, r) else (1, s))"

text \<open>
  \<^verbatim>\<open>parseInt(s)\<close> with no radix: skip white space, read a sign, switch to radix 16
  after \<^verbatim>\<open>0x\<close>, take the longest run of digits; NaN when that run is empty.
\<close>

definition parseInt :: "string \<Rightarrow> jsnum" where
  "parseInt str =
     (let (sg, s1) = strip_sign (dropWhile is_space str);
          (R, s2) = (case s1 of
                       a # b # r \<Rightarrow>
                         if a = CHR ''0'' \<and> (b = CHR ''x'' \<or> b = CHR ''X'') then (16, r)
                         else (10, s1)
                     | _ \<Rightarrow> (10, s1));
          Z = takeWhile (\<lambda>c. digit_of R c \<noteq> None) s2
      in if Z = [] then NaN else Num (of_int (sg * int (digits_value R Z))))"

text \<open>The exponent part \<^verbatim>\<open>e[+-]digits\<close> of a decimal literal, 0 when there is none.\<close>

definition exponent_part :: "string \<Rightarrow> int" where
  "exponent_part s =
     (case s of
        [] \<Rightarrow> 0
      | c # r \<Rightarrow>
          if c = CHR ''e'' \<or> c = CHR ''E'' then
            (let (sg, r1) = strip_sign r; ds = takeWhile is_digit r1
             in if ds = [] then 0 else sg * int (digits_value 10 ds))
          else 0)"

text \<open>
  \<^verbatim>\<open>parseFloat(s)\<close>: skip white space, read a sign, then \<^verbatim>\<open>Infinity\<close> or the longest
  decimal literal (digits, an optional point and digits, an optional exponent); NaN when
  there is no digit on either side of the point.
\<close>

definition parseFloat :: "string \<Rightarrow> jsnum" where
  "parseFloat str =
     (let (sg, s1) = strip_sign (dropWhile is_space str)
      in if take 8 s1 = ''Infinity'' then (if sg < 0 then NegInf else PosInf)
         else
           (let ip = takeWhile is_digit s1;
                r1 = dropWhile is_digit s1;
                (fp, r2) = (case r1 of
                              [] \<Rightarrow> ([], r1)
                            | c # r \<Rightarrow>
                                if c = CHR ''.'' then (takeWhile is_digit r, dropWhile is_digit r)
                                else ([], r1));
                m = of_nat (digits_value 10 ip) + of_nat (digits_value 10 fp) / 10 ^ length fp;
                ex = exponent_part r2
            in if ip = [] \<and> fp = [] then NaN
               else Num (of_int sg * (if 0 \<le> ex then m * 10 ^ nat ex else m / 10 ^ nat (- ex)))))"

text \<open>
  \<^verbatim>\<open>attr || dflt\<close> on an attribute read from \<^verbatim>\<open>dataset\<close>: the default replaces an
  absent attribute (\<^verbatim>\<open>undefined\<close>) and an empty one (the empty string is falsy).
\<close>

definition or_default :: "string option \<Rightarrow> string \<Rightarrow> string" where
  "or_default a dflt = (case a of None \<Rightarrow> dflt | Some s \<Rightarrow> if s = [] then dflt else s)"


section \<open>The animation primitive\<close>

text \<open>
  Both libraries are called with targets, keyframes per visual property and timing
  options. The call is recorded as data; what the library then does to the page over the
  following frames is outside the scripts. A spring easing is a value of its own.
\<close>

datatype easing_fn = Named string | Spring rat rat

text \<open>
  Modelled from the spec: the libraries' \<^verbatim>\<open>stagger(step)\<close> helper is not part of the
  repository. The spec gives it as a per-item incremental delay function: the item at
  index \<open>i\<close> delays by \<open>i\<close> times the step.
\<close>

definition stagger :: "jsnum \<Rightarrow> nat \<Rightarrow> jsnum" where
  "stagger step i = js_mul (Num (of_nat i)) step"

datatype delay_opt = Fixed jsnum | Stagger jsnum

fun delay_at :: "delay_opt \<Rightarrow> nat \<Rightarrow> jsnum" where
  "delay_at (Fixed d) i = d"
| "delay_at (Stagger step) i = stagger step i"

type_synonym elem = nat

type_synonym keyframe_set = "(string \<times> string list) list"

record animation =
  targets :: "elem list"
  keyframes :: keyframe_set
  duration :: jsnum
  delay :: delay_opt
  easing :: "easing_fn option"

text \<open>How a call ends: it returns, or an exception leaves it.\<close>

datatype completion = Returned | Threw

section \<open>The page and the controller\<close>

datatype dispatch = AnimateElement elem | AnimateStaggerChildren elem

text \<open>
  The page as the controller sees it. \<open>document\<close> lists the elements in document
  order, \<open>dataset\<close> gives each element's \<^verbatim>\<open>data-*\<close> attributes under their
  \<^verbatim>\<open>dataset\<close> names, \<open>stagger_items\<close> gives for a container the result of
  \<^verbatim>\<open>querySelectorAll('[data-stagger-item]')\<close> in document order; \<open>opacity\<close> and
  \<open>transform\<close> are the inline styles the scripts write. \<open>animatedElements\<close> is the
  controller's field of that name, \<open>observed\<close> and \<open>staggerObserved\<close> are the targets
  of its two observers. \<open>animate_calls\<close> lists the calls made to the animation
  primitive and \<open>dispatched\<close> the invocations of the two dispatch methods, in order.
\<close>

record world =
  document :: "elem list"
  dataset :: "elem \<Rightarrow> string \<rightharpoonup> string"
  stagger_items :: "elem \<Rightarrow> elem list"
  opacity :: "elem \<Rightarrow> string option"
  transform :: "elem \<Rightarrow> string option"
  animatedElements :: "elem set"
  observed :: "elem list"
  staggerObserved :: "elem list"
  animate_calls :: "animation list"
  dispatched :: "dispatch list"

definition new_page ::
  "elem list \<Rightarrow> (elem \<Rightarrow> string \<rightharpoonup> string) \<Rightarrow> (elem \<Rightarrow> elem list) \<Rightarrow> world" where
  "new_page els attrs items =
     \<lparr> document = els, dataset = attrs, stagger_items = items,
       opacity = (\<lambda>_. None), transform = (\<lambda>_. None), animatedElements = {},
       observed = [], staggerObserved = [], animate_calls = [], dispatched = [] \<rparr>"

text \<open>
  A call of the primitive: the call is recorded, and \<open>fails\<close> says whether the library
  throws on it.
\<close>

definition animate :: "(animation \<Rightarrow> bool) \<Rightarrow> animation \<Rightarrow> world \<Rightarrow> world \<times> completion" where
  "animate fails a w =
     (w\<lparr>animate_calls := animate_calls w @ [a]\<rparr>, if fails a then Threw else Returned)"

subsection \<open>The preset tables\<close>

text \<open>A preset: the keyframes, what is added to the resolved duration, the easing.\<close>

type_synonym preset = "keyframe_set \<times> rat option \<times> easing_fn"

definition fade :: "string \<Rightarrow> string \<Rightarrow> keyframe_set" where
  "fade a b = [(''opacity'', [''0'', ''1'']), (''transform'', [a, b])]"

definition move :: "string \<Rightarrow> string \<Rightarrow> keyframe_set" where
  "move a b = [(''transform'', [a, b])]"

definition ease_out :: easing_fn where
  "ease_out = Named ''ease-out''"

definition fade_by :: "(string \<times> string list) list \<Rightarrow> keyframe_set" where
  "fade_by props = (''opacity'', [''0'', ''1'']) # props"

fun animations :: "variant \<Rightarrow> (string \<times> preset) list" where
  "animations MotionFull =
     [(''fade-up'', fade ''translateY(60px)'' ''translateY(0px)'', None, ease_out),
      (''fade-down'', fade ''translateY(-60px)'' ''translateY(0px)'', None, ease_out),
      (''fade-left'', fade ''translateX(60px)'' ''translateX(0px)'', None, ease_out),
      (''fade-right'', fade ''translateX(-60px)'' ''translateX(0px)'', None, ease_out),
      (''zoom-in'', fade ''scale(0.8)'' ''scale(1)'', None, ease_out),
      (''zoom-out'', fade ''scale(1.1)'' ''scale(1)'', None, ease_out),
      (''flip-up'', fade ''perspective(1000px) rotateX(90deg) translateY(40px)''
                         ''perspective(1000px) rotateX(0deg) translateY(0px)'',
         Some (1 / 5), ease_out),
      (''rotate-in'', fade ''rotate(-10deg) scale(0.9)'' ''rotate(0deg) scale(1)'',
         None, Spring 300 20),
      (''blur-in'', [(''opacity'', [''0'', ''1'']), (''filter'', [''blur(10px)'', ''blur(0px)'']),
                     (''transform'', [''translateY(30px)'', ''translateY(0px)''])],
         None, ease_out),
      (''slide-reveal'', fade ''translateY(100px)'' ''translateY(0px)'', Some (1 / 5), ease_out),
      (''bounce-in'', fade ''translateY(80px) scale(0.85)'' ''translateY(0px) scale(1)'',
         Some (2 / 5), Spring 200 15),
      (''skew-in'', fade ''skewY(6deg) translateY(40px)'' ''skewY(0deg) translateY(0px)'',
         None, ease_out)]"
| "animations MotionMinimal =
     [(''fade-up'', move ''translateY(20px)'' ''translateY(0px)'', None, ease_out),
      (''fade-down'', move ''translateY(-20px)'' ''translateY(0px)'', None, ease_out),
      (''fade-left'', move ''translateX(20px)'' ''translateX(0px)'', None, ease_out),
      (''fade-right'', move ''translateX(-20px)'' ''translateX(0px)'', None, ease_out),
      (''zoom-in'', move ''scale(0.95)'' ''scale(1)'', None, ease_out),
      (''zoom-out'', move ''scale(1.05)'' ''scale(1)'', None, ease_out),
      (''flip-up'', move ''translateY(10px)'' ''translateY(0px)'', None, ease_out),
      (''rotate-in'', move ''scale(0.98)'' ''scale(1)'', None, ease_out),
      (''blur-in'', move ''translateY(10px)'' ''translateY(0px)'', None, ease_out),
      (''slide-reveal'', move ''translateY(15px)'' ''translateY(0px)'', None, ease_out),
      (''bounce-in'', move ''translateY(15px)'' ''translateY(0px)'', None, ease_out),
      (''skew-in'', move ''translateY(10px)'' ''translateY(0px)'', None, ease_out)]"
| "animations AnimeJs =
     [(''fade-up'', fade_by [(''translateY'', [''60'', ''0''])], None, Named ''easeOutExpo''),
      (''fade-down'', fade_by [(''translateY'', [''-60'', ''0''])], None, Named ''easeOutExpo''),
      (''fade-left'', fade_by [(''translateX'', [''60'', ''0''])], None, Named ''easeOutExpo''),
      (''fade-right'', fade_by [(''translateX'', [''-60'', ''0''])], None, Named ''easeOutExpo''),
      (''zoom-in'', fade_by [(''scale'', [''0.8'', ''1''])], None, Named ''easeOutExpo''),
      (''zoom-out'', fade_by [(''scale'', [''1.1'', ''1''])], None, Named ''easeOutExpo''),
      (''flip-up'', fade_by [(''rotateX'', [''90'', ''0'']), (''translateY'', [''40'', ''0''])],
         Some 200, Named ''easeOutExpo''),
      (''rotate-in'', fade_by [(''rotate'', [''-10'', ''0'']), (''scale'', [''0.9'', ''1''])],
         None, Named ''easeOutElastic(1, 0.5)''),
      (''blur-in'', fade_by [(''filter'', [''blur(10px)'', ''blur(0px)'']),
                             (''translateY'', [''30'', ''0''])],
         None, Named ''easeOutExpo''),
      (''slide-reveal'', fade_by [(''translateY'', [''100'', ''0''])],
         Some 200, Named ''easeOutQuart''),
      (''bounce-in'', fade_by [(''translateY'', [''80'', ''0'']), (''scale'', [''0.85'', ''1''])],
         Some 400, Named ''easeOutElastic(1, 0.6)''),
      (''skew-in'', fade_by [(''skewY'', [''6'', ''0'']), (''translateY'', [''40'', ''0''])],
         None, Named ''easeOutQuart'')]"

text \<open>
  The tables are plain objects, so a lookup also finds the members every object inherits
  from \<^verbatim>\<open>Object.prototype\<close>. Such a value is truthy and is no preset.
\<close>

definition object_prototype_keys :: "string list" where
  "object_prototype_keys =
     [''constructor'', ''__proto__'', ''hasOwnProperty'', ''isPrototypeOf'',
      ''propertyIsEnumerable'', ''toLocaleString'', ''toString'', ''valueOf'',
      ''__defineGetter__'', ''__defineSetter__'', ''__lookupGetter__'', ''__lookupSetter__'']"

text \<open>
  Calling such a member with no receiver (the scripts are modules, hence strict):
  \<^verbatim>\<open>constructor\<close>, \<^verbatim>\<open>toString\<close> and \<^verbatim>\<open>isPrototypeOf\<close> return; the others convert the
  missing receiver to an object and throw a TypeError, and \<^verbatim>\<open>__proto__\<close> yields the
  prototype object, which is not callable.
\<close>

definition inherited_call :: "string \<Rightarrow> completion" where
  "inherited_call k =
     (if k \<in> set [''constructor'', ''toString'', ''isPrototypeOf''] then Returned else Threw)"


subsection \<open>setupObservers\<close>

text \<open>
  \<^verbatim>\<open>querySelectorAll('[data-x]')\<close>: the elements that carry the attribute, in document
  order.
\<close>

definition querySelectorAll :: "string \<Rightarrow> world \<Rightarrow> elem list" where
  "querySelectorAll a w = filter (\<lambda>el. dataset w el a \<noteq> None) (document w)"

definition set_opacity :: "elem \<Rightarrow> string \<Rightarrow> world \<Rightarrow> world" where
  "set_opacity el s w = w\<lparr>opacity := (opacity w)(el := Some s)\<rparr>"

definition set_transform :: "elem \<Rightarrow> string \<Rightarrow> world \<Rightarrow> world" where
  "set_transform el s w = w\<lparr>transform := (transform w)(el := Some s)\<rparr>"

text \<open>
  The full Motion One version and the anime.js version set every element's opacity to 0
  before observing it; the minimal version only observes.
\<close>

definition observe_animatable :: "variant \<Rightarrow> world \<Rightarrow> elem \<Rightarrow> world" where
  "observe_animatable v w el =
     (let w1 = (if v = MotionMinimal then w else set_opacity el ''0'' w)
      in w1\<lparr>observed := observed w1 @ [el]\<rparr>)"

definition setupStaggerObservers :: "world \<Rightarrow> world" where
  "setupStaggerObservers w =
     foldl (\<lambda>w1 container. w1\<lparr>staggerObserved := staggerObserved w1 @ [container]\<rparr>)
       w (querySelectorAll ''stagger'' w)"

text \<open>
  \<^verbatim>\<open>setupParallax\<close>, which \<^verbatim>\<open>setupObservers\<close> calls between the two steps below,
  touches none of these fields; it is modelled on a state of its own further down.
\<close>

definition setupObservers :: "variant \<Rightarrow> world \<Rightarrow> world" where
  "setupObservers v w =
     setupStaggerObservers (foldl (observe_animatable v) w (querySelectorAll ''animate'' w))"

subsection \<open>animateElement\<close>

definition resolved_delay :: "variant \<Rightarrow> (string \<rightharpoonup> string) \<Rightarrow> jsnum" where
  "resolved_delay v ds =
     (case v of
        AnimeJs \<Rightarrow> parseInt (or_default (ds ''delay'') ''0'')
      | _ \<Rightarrow> js_div_const (parseInt (or_default (ds ''delay'') ''0'')) 1000)"

definition resolved_duration :: "variant \<Rightarrow> (string \<rightharpoonup> string) \<Rightarrow> jsnum" where
  "resolved_duration v ds =
     (case v of
        MotionFull \<Rightarrow> js_div_const (parseInt (or_default (ds ''duration'') ''800'')) 1000
      | MotionMinimal \<Rightarrow> Num (3 / 10)
      | AnimeJs \<Rightarrow> parseInt (or_default (ds ''duration'') ''800''))"

definition resolved_kind :: "(string \<rightharpoonup> string) \<Rightarrow> string" where
  "resolved_kind ds = or_default (ds ''animate'') ''fade-up''"

text \<open>
  The three outcomes of the lookup \<^verbatim>\<open>animations[animationType || 'fade-up']\<close>:
  \<^item> a preset of the table: one call of the primitive on the element;
  \<^item> a member inherited from \<^verbatim>\<open>Object.prototype\<close>: the truthy branch is taken. The
    Motion One versions call the member; the anime.js version hands it to \<^verbatim>\<open>anime\<close>
    as the parameter object, which has no targets, no keyframes and no timing (the
    missing numbers are written NaN);
  \<^item> nothing: the full Motion One version shows the element at once (opacity 1,
    transform none); the other two versions do nothing.
\<close>

definition animateElement ::
  "variant \<Rightarrow> (animation \<Rightarrow> bool) \<Rightarrow> elem \<Rightarrow> world \<Rightarrow> world \<times> completion" where
  "animateElement v fails el w0 =
     (let w = w0\<lparr>dispatched := dispatched w0 @ [AnimateElement el]\<rparr>;
          delay = resolved_delay v (dataset w el);
          duration = resolved_duration v (dataset w el);
          kind = resolved_kind (dataset w el)
      in case map_of (animations v) kind of
           Some (kf, extra, ez) \<Rightarrow>
             animate fails
               \<lparr> targets = [el], keyframes = kf,
                 duration = (case extra of None \<Rightarrow> duration | Some x \<Rightarrow> js_add duration (Num x)),
                 delay = Fixed delay, easing = Some ez \<rparr> w
         | None \<Rightarrow>
             if kind \<in> set object_prototype_keys then
               (if v = AnimeJs then
                  animate fails
                    \<lparr> targets = [], keyframes = [], duration = NaN, delay = Fixed NaN,
                      easing = None \<rparr> w
                else (w, inherited_call kind))
             else if v = MotionFull then
               (set_transform el ''none'' (set_opacity el ''1'' w), Returned)
             else (w, Returned))"

subsection \<open>handleIntersection\<close>

record entry =
  target :: elem
  isIntersecting :: bool

text \<open>
  \<^verbatim>\<open>entries.forEach\<close> with no handler around the body: an exception that leaves
  \<^verbatim>\<open>animateElement\<close> leaves \<^verbatim>\<open>forEach\<close> and the callback, and the entries after it
  are not visited.
\<close>

fun handleIntersection ::
  "variant \<Rightarrow> (animation \<Rightarrow> bool) \<Rightarrow> entry list \<Rightarrow> world \<Rightarrow> world \<times> completion" where
  "handleIntersection v fails [] w = (w, Returned)"
| "handleIntersection v fails (e # es) w =
     (if isIntersecting e \<and> target e \<notin> animatedElements w then
        (case animateElement v fails (target e)
                (w\<lparr>animatedElements := insert (target e) (animatedElements w)\<rparr>) of
           (w1, Threw) \<Rightarrow> (w1, Threw)
         | (w1, Returned) \<Rightarrow> handleIntersection v fails es w1)
      else handleIntersection v fails es w)"

subsection \<open>The stagger observer\<close>

text \<open>
  The group presets. The anime.js table carries the easing inside each preset; the
  Motion One versions give it in the options.
\<close>

fun baseConfig :: "variant \<Rightarrow> (string \<times> keyframe_set \<times> easing_fn option) list" where
  "baseConfig MotionFull =
     [(''fade-up'', fade ''translateY(50px)'' ''translateY(0px)'', None),
      (''fade-down'', fade ''translateY(-50px)'' ''translateY(0px)'', None),
      (''zoom-in'', fade ''scale(0.8)'' ''scale(1)'', None),
      (''slide-left'', fade ''translateX(60px)'' ''translateX(0px)'', None),
      (''slide-right'', fade ''translateX(-60px)'' ''translateX(0px)'', None),
      (''rotate-stagger'', fade ''rotate(-15deg) translateY(40px)''
                                ''rotate(0deg) translateY(0px)'', None),
      (''cascade'', fade ''translateY(80px) translateX(-30px) rotate(-5deg)''
                         ''translateY(0px) translateX(0px) rotate(0deg)'', None)]"
| "baseConfig MotionMinimal =
     [(''fade-up'', move ''translateY(10px)'' ''translateY(0px)'', None),
      (''fade-down'', move ''translateY(-10px)'' ''translateY(0px)'', None),
      (''zoom-in'', move ''scale(0.98)'' ''scale(1)'', None),
      (''slide-left'', move ''translateX(10px)'' ''translateX(0px)'', None),
      (''slide-right'', move ''translateX(-10px)'' ''translateX(0px)'', None),
      (''rotate-stagger'', move ''translateY(10px)'' ''translateY(0px)'', None),
      (''cascade'', move ''translateY(10px)'' ''translateY(0px)'', None)]"
| "baseConfig AnimeJs =
     [(''fade-up'', fade_by [(''translateY'', [''50'', ''0''])], Some (Named ''easeOutExpo'')),
      (''fade-down'', fade_by [(''translateY'', [''-50'', ''0''])], Some (Named ''easeOutExpo'')),
      (''zoom-in'', fade_by [(''scale'', [''0.8'', ''1''])], Some (Named ''easeOutExpo'')),
      (''slide-left'', fade_by [(''translateX'', [''60'', ''0''])], Some (Named ''easeOutExpo'')),
      (''slide-right'', fade_by [(''translateX'', [''-60'', ''0''])], Some (Named ''easeOutExpo'')),
      (''rotate-stagger'', fade_by [(''rotate'', [''-15'', ''0'']), (''translateY'', [''40'', ''0''])],
         Some (Named ''easeOutElastic(1, 0.5)'')),
      (''cascade'', fade_by [(''translateY'', [''80'', ''0'']), (''translateX'', [''-30'', ''0'']),
                             (''rotate'', [''-5'', ''0''])],
         Some (Named ''easeOutQuart''))]"

text \<open>
  The keyframes and the preset's own easing for a group kind. A kind outside the table
  gets the \<^verbatim>\<open>fade-up\<close> preset in the Motion One versions
  (\<^verbatim>\<open>baseConfig[animationType] || baseConfig['fade-up']\<close>) and nothing in the anime.js
  version (the spread of \<^verbatim>\<open>undefined\<close>); an inherited member is truthy and has no
  property to animate or to spread.
\<close>

definition stagger_config :: "variant \<Rightarrow> string \<Rightarrow> keyframe_set \<times> easing_fn option" where
  "stagger_config v kind =
     (case map_of (baseConfig v) kind of
        Some c \<Rightarrow> c
      | None \<Rightarrow>
          if kind \<in> set object_prototype_keys \<or> v = AnimeJs then ([], None)
          else (case map_of (baseConfig v) ''fade-up'' of Some c \<Rightarrow> c | None \<Rightarrow> ([], None)))"

definition staggerDelayMs :: "variant \<Rightarrow> (string \<rightharpoonup> string) \<Rightarrow> jsnum" where
  "staggerDelayMs v ds =
     (if v = MotionMinimal then Num 30 else parseInt (or_default (ds ''staggerDelay'') ''100''))"

definition animateStaggerChildren ::
  "variant \<Rightarrow> (animation \<Rightarrow> bool) \<Rightarrow> elem \<Rightarrow> world \<Rightarrow> world \<times> completion" where
  "animateStaggerChildren v fails container w0 =
     (let w = w0\<lparr>dispatched := dispatched w0 @ [AnimateStaggerChildren container]\<rparr>;
          children = stagger_items w container;
          ms = staggerDelayMs v (dataset w container);
          animationType = or_default (dataset w container ''stagger'') ''fade-up'';
          w1 = (if v = MotionMinimal then w
                else foldl (\<lambda>w2 child. set_opacity child ''0'' w2) w children);
          (config, own_easing) = stagger_config v animationType
      in animate fails
           \<lparr> targets = children, keyframes = config,
             duration = (case v of MotionFull \<Rightarrow> Num (4 / 5) | MotionMinimal \<Rightarrow> Num (1 / 5)
                         | AnimeJs \<Rightarrow> Num 800),
             delay = Stagger (if v = AnimeJs then ms else js_div_const ms 1000),
             easing = (if v = AnimeJs then own_easing else Some ease_out) \<rparr> w1)"

text \<open>The callback of \<^verbatim>\<open>staggerObserver\<close>, written inline in the source.\<close>

fun staggerIntersection ::
  "variant \<Rightarrow> (animation \<Rightarrow> bool) \<Rightarrow> entry list \<Rightarrow> world \<Rightarrow> world \<times> completion" where
  "staggerIntersection v fails [] w = (w, Returned)"
| "staggerIntersection v fails (e # es) w =
     (if isIntersecting e \<and> target e \<notin> animatedElements w then
        (case animateStaggerChildren v fails (target e)
                (w\<lparr>animatedElements := insert (target e) (animatedElements w)\<rparr>) of
           (w1, Threw) \<Rightarrow> (w1, Threw)
         | (w1, Returned) \<Rightarrow> staggerIntersection v fails es w1)
      else staggerIntersection v fails es w)"

subsection \<open>The page over time\<close>

text \<open>
  After set-up the controller only runs inside the two observer callbacks. Each batch
  comes with the behaviour of the primitive during it. An exception that leaves a
  callback is reported by the browser and the page goes on with the state reached.
\<close>

datatype batch =
  Entrance "animation \<Rightarrow> bool" "entry list"
| Group "animation \<Rightarrow> bool" "entry list"

fun deliver :: "variant \<Rightarrow> world \<Rightarrow> batch \<Rightarrow> world" where
  "deliver v w (Entrance fails es) = fst (handleIntersection v fails es w)"
| "deliver v w (Group fails es) = fst (staggerIntersection v fails es w)"

definition run_page :: "variant \<Rightarrow> batch list \<Rightarrow> world \<Rightarrow> world" where
  "run_page v bs w = foldl (deliver v) w bs"


section \<open>Counters\<close>

text \<open>
  The text a counter shows. \<^verbatim>\<open>Number.prototype.toString\<close> prints a finite value of
  magnitude \<open>10\<^sup>2\<^sup>1\<close> or more in exponent notation, with digits that depend on the
  double behind it; such a text is kept as \<open>Exponential\<close> of the value. Every other
  text is spelled out.
\<close>

datatype display = Text string | Exponential rat

function decimal :: "nat \<Rightarrow> string" where
  "decimal n =
     (if n < 10 then [char_of (48 + n)] else decimal (n div 10) @ [char_of (48 + n mod 10)])"
  by pat_completeness auto
termination
  by (relation "measure id") auto

declare decimal.simps [simp del]

text \<open>\<^verbatim>\<open>Math.round\<close>: the nearest integer, a tie going up.\<close>

fun math_round :: "jsnum \<Rightarrow> jsnum" where
  "math_round (Num a) = Num (of_int \<lfloor>a + 1 / 2\<rfloor>)"
| "math_round x = x"

text \<open>\<^verbatim>\<open>toString()\<close> of a number that is an integer or not finite.\<close>

fun number_toString :: "jsnum \<Rightarrow> display" where
  "number_toString NaN = Text ''NaN''"
| "number_toString PosInf = Text ''Infinity''"
| "number_toString NegInf = Text ''-Infinity''"
| "number_toString (Num a) =
     (if 10 ^ 21 \<le> \<bar>a\<bar> then Exponential a
      else Text ((if a < 0 then ''-'' else []) @ decimal (nat \<lfloor>\<bar>a\<bar>\<rfloor>)))"

text \<open>
  \<^verbatim>\<open>x.toFixed(1)\<close>: a value that is not finite or of magnitude \<open>10\<^sup>2\<^sup>1\<close> or more
  goes through \<^verbatim>\<open>toString\<close>. Otherwise the sign is split off, \<open>n\<close> is the integer
  nearest to ten times the magnitude (a tie going up), and the text is the digits of
  \<open>n\<close>, padded to two, with the point before the last one.
\<close>

fun toFixed1 :: "jsnum \<Rightarrow> display" where
  "toFixed1 (Num a) =
     (if 10 ^ 21 \<le> \<bar>a\<bar> then Exponential a
      else
        (let m = decimal (nat \<lfloor>\<bar>a\<bar> * 10 + 1 / 2\<rfloor>);
             m1 = (if length m \<le> 1 then ''0'' @ m else m)
         in Text ((if a < 0 then ''-'' else []) @ butlast m1 @ ''.'' @ [last m1])))"
| "toFixed1 x = number_toString x"

text \<open>The body of the progress callback: the text written for one progress value.\<close>

definition counter_text :: "string \<Rightarrow> jsnum \<Rightarrow> display" where
  "counter_text endValue progress =
     (let isFloat = (CHR ''.'' \<in> set endValue);
          numericEnd = parseFloat endValue;
          currentValue = js_mul progress numericEnd
      in if isFloat then toFixed1 currentValue else number_toString (math_round currentValue))"

text \<open>
  Modelled from the spec: the progress form of Motion One's \<^verbatim>\<open>animate\<close> is not part
  of the repository. The spec gives it as a synthetic numeric progress that runs from 0 to
  the target, the callback writing the text on every intermediate frame. The frames'
  progress values are given from outside; the run ends with the progress 1.
\<close>

definition animate_progress :: "(jsnum \<Rightarrow> 's \<Rightarrow> 's) \<Rightarrow> rat list \<Rightarrow> 's \<Rightarrow> 's" where
  "animate_progress cb frames s = foldl (\<lambda>s1 p. cb (Num p) s1) s (frames @ [1])"

text \<open>
  The counters of a page: their attributes, the targets of \<^verbatim>\<open>counterObserver\<close>, and
  every assignment to \<^verbatim>\<open>textContent\<close> in the order it is made.
\<close>

record counter_page =
  counter_attrs :: "elem \<Rightarrow> string \<rightharpoonup> string"
  counter_observed :: "elem list"
  text_writes :: "(elem \<times> display) list"

definition write_text :: "elem \<Rightarrow> display \<Rightarrow> counter_page \<Rightarrow> counter_page" where
  "write_text el t cp = cp\<lparr>text_writes := text_writes cp @ [(el, t)]\<rparr>"

text \<open>
  The callback of \<^verbatim>\<open>counterObserver\<close> in the two Motion One versions. \<open>frames\<close>
  gives the progress values the library will hand to the element's callback and
  \<open>fails\<close> says whether the call of the primitive throws; the writes of one element are
  listed together, in their order.
\<close>

fun counterIntersection ::
  "(elem \<Rightarrow> rat list) \<Rightarrow> (elem \<Rightarrow> bool) \<Rightarrow> entry list \<Rightarrow> counter_page
     \<Rightarrow> counter_page \<times> completion" where
  "counterIntersection frames fails [] cp = (cp, Returned)"
| "counterIntersection frames fails (e # es) cp =
     (if isIntersecting e then
        (let element = target e;
             endValue = or_default (counter_attrs cp element ''counter'') ''0''
         in if parseFloat endValue \<noteq> NaN \<and> fails element then (cp, Threw)
            else
              (let cp1 = (if parseFloat endValue \<noteq> NaN
                          then animate_progress
                                 (\<lambda>progress. write_text element (counter_text endValue progress))
                                 (frames element) cp
                          else cp)
               in counterIntersection frames fails es
                    (cp1\<lparr>counter_observed := removeAll element (counter_observed cp1)\<rparr>)))
      else counterIntersection frames fails es cp)"

text \<open>The texts written for one element, in order.\<close>

definition shown :: "counter_page \<Rightarrow> elem \<Rightarrow> display list" where
  "shown cp el = map snd (filter (\<lambda>(x, t). x = el) (text_writes cp))"




section \<open>Text reveal\<close>

















section \<open>Parallax\<close>

text \<open>
  What the browser answers while \<^verbatim>\<open>handleScroll\<close> runs: the scroll position, the
  height of the window, and each element's bounding rectangle.
\<close>

record viewport =
  scrollY :: jsnum
  innerHeight :: jsnum
  rect_top :: "elem \<Rightarrow> jsnum"
  rect_height :: "elem \<Rightarrow> jsnum"

text \<open>
  The closure \<^verbatim>\<open>setupParallax\<close> leaves behind: the parallax elements and their
  attributes, whether the scroll listener was installed, the flag \<^verbatim>\<open>ticking\<close>, the
  callbacks given to \<^verbatim>\<open>requestAnimationFrame\<close> that have not run yet, the offset
  last written to each element's transform, and for every rendered frame so far the number
  of runs of \<^verbatim>\<open>handleScroll\<close> in it.
\<close>

record parallax =
  parallaxElements :: "elem list"
  parallax_attrs :: "elem \<Rightarrow> string \<rightharpoonup> string"
  listening :: bool
  ticking :: bool
  frame_requests :: nat
  translateY :: "elem \<Rightarrow> jsnum option"
  recomputed :: "nat list"

definition setupParallax :: "elem list \<Rightarrow> (elem \<Rightarrow> string \<rightharpoonup> string) \<Rightarrow> parallax" where
  "setupParallax els attrs =
     (let found = filter (\<lambda>el. attrs el ''parallax'' \<noteq> None) els
      in \<lparr> parallaxElements = found, parallax_attrs = attrs, listening = (found \<noteq> []),
           ticking = False, frame_requests = 0, translateY = (\<lambda>_. None), recomputed = [] \<rparr>)"

definition parallax_element :: "viewport \<Rightarrow> parallax \<Rightarrow> elem \<Rightarrow> parallax" where
  "parallax_element vp ps el =
     (let speed = parseFloat (or_default (parallax_attrs ps el ''parallax'') ''0.5'');
          direction = or_default (parallax_attrs ps el ''parallaxDirection'') ''up'';
          elementTop = js_add (rect_top vp el) (scrollY vp);
          scrollProgress = js_add (js_add (scrollY vp) (js_neg elementTop)) (innerHeight vp)
      in if js_lt (Num 0) scrollProgress
            \<and> js_lt scrollProgress (js_add (innerHeight vp) (rect_height vp el))
         then
           (let t = js_mul (js_mul scrollProgress speed) (Num (1 / 10));
                t1 = (if direction = ''down'' then js_neg t else t)
            in ps\<lparr>translateY := (translateY ps)(el := Some t1)\<rparr>)
         else ps)"

definition handleScroll :: "viewport \<Rightarrow> parallax \<Rightarrow> parallax" where
  "handleScroll vp ps = foldl (parallax_element vp) ps (parallaxElements ps)"

text \<open>The scroll listener.\<close>

definition on_scroll :: "parallax \<Rightarrow> parallax" where
  "on_scroll ps =
     (if listening ps \<and> \<not> ticking ps
      then ps\<lparr>frame_requests := frame_requests ps + 1, ticking := True\<rparr>
      else ps)"

text \<open>The callback given to \<^verbatim>\<open>requestAnimationFrame\<close>.\<close>

definition frame_callback :: "viewport \<Rightarrow> parallax \<Rightarrow> parallax" where
  "frame_callback vp ps = (handleScroll vp ps)\<lparr>ticking := False\<rparr>"

text \<open>
  A rendered frame runs every callback requested before it, and notes how many runs of
  \<^verbatim>\<open>handleScroll\<close> that made.
\<close>

definition on_frame :: "viewport \<Rightarrow> parallax \<Rightarrow> parallax" where
  "on_frame vp ps =
     (let n = frame_requests ps;
          ps1 = ((frame_callback vp) ^^ n) ps
      in ps1\<lparr>frame_requests := 0, recomputed := recomputed ps1 @ [n]\<rparr>)"

datatype scroll_event = Scroll | Frame viewport

fun parallax_step :: "parallax \<Rightarrow> scroll_event \<Rightarrow> parallax" where
  "parallax_step ps Scroll = on_scroll ps"
| "parallax_step ps (Frame vp) = on_frame vp ps"

definition run_parallax :: "scroll_event list \<Rightarrow> parallax \<Rightarrow> parallax" where
  "run_parallax evs ps = foldl parallax_step ps evs"

section \<open>Auxiliary notions for the proofs\<close>

text \<open>
  The element a dispatch is about, how often the dispatch methods were invoked for an
  element, and the guard both observer callbacks keep: an element outside
  \<open>animatedElements\<close> has had no dispatch, an element inside it at most one.
\<close>

fun subject :: "dispatch \<Rightarrow> elem" where
  "subject (AnimateElement el) = el"
| "subject (AnimateStaggerChildren el) = el"

definition fired :: "world \<Rightarrow> elem \<Rightarrow> nat" where
  "fired w el = length (filter (\<lambda>d. subject d = el) (dispatched w))"

definition once_guard :: "world \<Rightarrow> bool" where
  "once_guard w = (\<forall>el. fired w el \<le> (if el \<in> animatedElements w then 1 else 0))"




text \<open>
  What the scroll listener keeps true: a frame callback is outstanding exactly while
  \<^verbatim>\<open>ticking\<close> is set, and no frame so far ran \<^verbatim>\<open>handleScroll\<close> more than once.
\<close>

definition coalesced :: "parallax \<Rightarrow> bool" where
  "coalesced ps =
     (frame_requests ps = (if ticking ps then 1 else 0) \<and> list_all (\<lambda>n. n \<le> 1) (recomputed ps))"

text \<open>A viewport for the examples.\<close>

definition page_vp :: viewport where
  "page_vp = \<lparr> scrollY = Num 100, innerHeight = Num 800, rect_top = (\<lambda>_. Num 300),
               rect_height = (\<lambda>_. Num 200) \<rparr>"

text \<open>
  Pages for the examples: one element that is both an entrance element and a stagger
  container; two entrance elements; a grid of three items with a stagger delay of 200; an
  entrance element with a delay of 150 and a given duration attribute; an entrance element
  whose kind is no preset.
\<close>

definition both_page :: world where
  "both_page =
     new_page [0] (\<lambda>_. [''animate'' \<mapsto> ''zoom-in'', ''stagger'' \<mapsto> ''cascade'']) (\<lambda>_. [])"

definition two_page :: world where
  "two_page = new_page [0, 1] (\<lambda>_. [''animate'' \<mapsto> ''fade-up'']) (\<lambda>_. [])"

definition grid_page :: world where
  "grid_page =
     new_page [0, 1, 2, 3]
       (\<lambda>el. if el = 0 then [''stagger'' \<mapsto> ''fade-up'', ''staggerDelay'' \<mapsto> ''200'']
             else [''staggerItem'' \<mapsto> ''''])
       (\<lambda>el. if el = 0 then [1, 2, 3] else [])"

definition timed_page :: "string option \<Rightarrow> world" where
  "timed_page d =
     new_page [0] (\<lambda>_. [''animate'' \<mapsto> ''flip-up'', ''delay'' \<mapsto> ''150''](''duration'' := d))
       (\<lambda>_. [])"

definition wiggle_page :: world where
  "wiggle_page = new_page [0] (\<lambda>_. [''animate'' \<mapsto> ''wiggle'']) (\<lambda>_. [])"

text \<open>
  A time handed to the primitive, read in milliseconds: Motion One takes seconds,
  anime.js takes milliseconds.
\<close>

definition in_ms :: "variant \<Rightarrow> jsnum \<Rightarrow> jsnum" where
  "in_ms v x = (if v = AnimeJs then x else js_mul x (Num 1000))"

text \<open>
  The state of the page with the unknown kind in which the element is hidden.
\<close>

definition left_hidden :: "world \<Rightarrow> bool" where
  "left_hidden w =
     (dataset w = (\<lambda>_. [''animate'' \<mapsto> ''wiggle'']) \<and> stagger_items w = (\<lambda>_. [])
      \<and> opacity w 0 = Some ''0'')"

text \<open>A page with one counter, observed, whose \<^verbatim>\<open>data-counter\<close> is the given text.\<close>

definition counter_on :: "string \<Rightarrow> counter_page" where
  "counter_on a =
     \<lparr> counter_attrs = (\<lambda>_. [''counter'' \<mapsto> a]), counter_observed = [0], text_writes = [] \<rparr>"

section \<open>Properties\<close>

subsection \<open>Unfolding for concrete pages\<close>

lemmas parse_eval =
  parseInt_def parseFloat_def strip_sign_def digit_of_def is_digit_def digits_value_def
  is_space_def exponent_part_def or_default_def

lemmas page_eval =
  run_page_def setupObservers_def setupStaggerObservers_def querySelectorAll_def
  observe_animatable_def set_opacity_def set_transform_def new_page_def animateElement_def
  animateStaggerChildren_def animate_def resolved_delay_def resolved_duration_def
  resolved_kind_def staggerDelayMs_def stagger_config_def object_prototype_keys_def
  inherited_call_def fade_def move_def fade_by_def ease_out_def



lemmas parallax_eval =
  run_parallax_def setupParallax_def on_scroll_def on_frame_def frame_callback_def
  handleScroll_def parallax_element_def page_vp_def


subsection \<open>Fields the dispatch methods leave alone\<close>

lemma animate_fields [simp]:
  "dispatched (fst (animate fails a w)) = dispatched w"
  "animatedElements (fst (animate fails a w)) = animatedElements w"
  by (simp_all add: animate_def)

lemma set_style_fields [simp]:
  "dispatched (set_opacity el s w) = dispatched w"
  "animatedElements (set_opacity el s w) = animatedElements w"
  "dispatched (set_transform el s w) = dispatched w"
  "animatedElements (set_transform el s w) = animatedElements w"
  by (simp_all add: set_opacity_def set_transform_def)

lemma animateElement_dispatched:
  "dispatched (fst (animateElement v fails el w)) = dispatched w @ [AnimateElement el]"
  unfolding animateElement_def Let_def
  by (cases "map_of (animations v)
               (resolved_kind (dataset (w\<lparr>dispatched := dispatched w @ [AnimateElement el]\<rparr>) el))")
     (auto split: prod.splits)

lemma animateElement_seen:
  "animatedElements (fst (animateElement v fails el w)) = animatedElements w"
  unfolding animateElement_def Let_def
  by (cases "map_of (animations v)
               (resolved_kind (dataset (w\<lparr>dispatched := dispatched w @ [AnimateElement el]\<rparr>) el))")
     (auto split: prod.splits)

lemma hide_children_fields [simp]:
  "dispatched (foldl (\<lambda>w2 child. set_opacity child s w2) w cs) = dispatched w"
  "animatedElements (foldl (\<lambda>w2 child. set_opacity child s w2) w cs) = animatedElements w"
  by (induction cs arbitrary: w) simp_all

lemma animateStaggerChildren_dispatched:
  "dispatched (fst (animateStaggerChildren v fails el w)) =
     dispatched w @ [AnimateStaggerChildren el]"
  by (simp add: animateStaggerChildren_def Let_def split: prod.splits)

lemma animateStaggerChildren_seen:
  "animatedElements (fst (animateStaggerChildren v fails el w)) = animatedElements w"
  by (simp add: animateStaggerChildren_def Let_def split: prod.splits)

lemma once_guard_step:
  assumes "once_guard w" and "el \<notin> animatedElements w" and "subject d = el"
    and "dispatched w' = dispatched w @ [d]"
    and "animatedElements w' = insert el (animatedElements w)"
  shows "once_guard w'"
  unfolding once_guard_def fired_def
proof
  fix x
  from assms(1) have h: "fired w x \<le> (if x \<in> animatedElements w then 1 else 0)"
    by (simp add: once_guard_def)
  show "length (filter (\<lambda>d. subject d = x) (dispatched w')) \<le> (if x \<in> animatedElements w' then 1 else 0)"
  proof (cases "x = el")
    case True
    with h assms(2) have "fired w x = 0" by simp
    with True assms(3,4,5) show ?thesis by (simp add: fired_def)
  next
    case False
    with h assms(3,4,5) show ?thesis by (simp add: fired_def)
  qed
qed

lemma handleIntersection_guard:
  "once_guard w \<Longrightarrow> once_guard (fst (handleIntersection v fails es w))"
proof (induction es arbitrary: w)
  case Nil
  then show ?case by simp
next
  case (Cons e es)
  show ?case
  proof (cases "isIntersecting e \<and> target e \<notin> animatedElements w")
    case False
    with Cons show ?thesis by auto
  next
    case True
    define w0 where "w0 = w\<lparr>animatedElements := insert (target e) (animatedElements w)\<rparr>"
    obtain w1 c where run: "animateElement v fails (target e) w0 = (w1, c)"
      by (cases "animateElement v fails (target e) w0")
    have w1: "w1 = fst (animateElement v fails (target e) w0)"
      by (simp add: run)
    have g: "once_guard w1"
      by (rule once_guard_step [OF Cons.prems, of "target e" "AnimateElement (target e)"])
         (use True in \<open>simp_all add: w1 w0_def animateElement_dispatched animateElement_seen\<close>)
    show ?thesis
    proof (cases c)
      case Returned
      have "handleIntersection v fails (e # es) w = handleIntersection v fails es w1"
        using True run Returned by (simp add: w0_def)
      with Cons.IH [OF g] show ?thesis by simp
    next
      case Threw
      have "handleIntersection v fails (e # es) w = (w1, Threw)"
        using True run Threw by (simp add: w0_def)
      with g show ?thesis by simp
    qed
  qed
qed

lemma staggerIntersection_guard:
  "once_guard w \<Longrightarrow> once_guard (fst (staggerIntersection v fails es w))"
proof (induction es arbitrary: w)
  case Nil
  then show ?case by simp
next
  case (Cons e es)
  show ?case
  proof (cases "isIntersecting e \<and> target e \<notin> animatedElements w")
    case False
    with Cons show ?thesis by auto
  next
    case True
    define w0 where "w0 = w\<lparr>animatedElements := insert (target e) (animatedElements w)\<rparr>"
    obtain w1 c where run: "animateStaggerChildren v fails (target e) w0 = (w1, c)"
      by (cases "animateStaggerChildren v fails (target e) w0")
    have w1: "w1 = fst (animateStaggerChildren v fails (target e) w0)"
      by (simp add: run)
    have g: "once_guard w1"
      by (rule once_guard_step [OF Cons.prems, of "target e" "AnimateStaggerChildren (target e)"])
         (use True in \<open>simp_all add: w1 w0_def animateStaggerChildren_dispatched
             animateStaggerChildren_seen\<close>)
    show ?thesis
    proof (cases c)
      case Returned
      have "staggerIntersection v fails (e # es) w = staggerIntersection v fails es w1"
        using True run Returned by (simp add: w0_def)
      with Cons.IH [OF g] show ?thesis by simp
    next
      case Threw
      have "staggerIntersection v fails (e # es) w = (w1, Threw)"
        using True run Threw by (simp add: w0_def)
      with g show ?thesis by simp
    qed
  qed
qed

lemma run_page_guard: "once_guard w \<Longrightarrow> once_guard (run_page v bs w)"
  unfolding run_page_def
proof (induction bs arbitrary: w)
  case Nil
  then show ?case by simp
next
  case (Cons b bs)
  have "once_guard (deliver v w b)"
    using Cons.prems by (cases b) (simp_all add: handleIntersection_guard staggerIntersection_guard)
  then show ?case using Cons.IH by simp
qed

lemma observe_fields [simp]:
  "dispatched (foldl (observe_animatable v) w els) = dispatched w"
  "animatedElements (foldl (observe_animatable v) w els) = animatedElements w"
  by (induction els arbitrary: w) (simp_all add: observe_animatable_def Let_def)

lemma stagger_observe_fields [simp]:
  "dispatched (foldl (\<lambda>w1 c. w1\<lparr>staggerObserved := staggerObserved w1 @ [c]\<rparr>) w els) = dispatched w"
  "animatedElements (foldl (\<lambda>w1 c. w1\<lparr>staggerObserved := staggerObserved w1 @ [c]\<rparr>) w els) = animatedElements w"
  by (induction els arbitrary: w) simp_all

lemma setupObservers_fields:
  "dispatched (setupObservers v w) = dispatched w"
  "animatedElements (setupObservers v w) = animatedElements w"
  by (simp_all add: setupObservers_def setupStaggerObservers_def)

lemma setup_guard: "once_guard (setupObservers v (new_page els attrs items))"
  by (simp add: once_guard_def fired_def setupObservers_fields new_page_def)

lemma count_le_filter:
  "count_list ds d \<le> length (filter (\<lambda>x. subject x = subject d) ds)"
  by (induction ds) auto


subsection \<open>At most one entrance dispatch per element\<close>

text \<open>
  C1. From page load on, whatever batches the two observers deliver (entering, leaving
  and re-entering elements, in any order and with any failures of the primitive),
  \<^verbatim>\<open>animateElement\<close> is invoked at most once for each element: the first reveal
  puts the element into \<open>animatedElements\<close> and every later entry for it is skipped.
\<close>

theorem entrance_fires_at_most_once:
  "count_list (dispatched (run_page v bs (setupObservers v (new_page els attrs items))))
     (AnimateElement el) \<le> 1"
proof -
  let ?w = "run_page v bs (setupObservers v (new_page els attrs items))"
  have "once_guard ?w" by (rule run_page_guard [OF setup_guard])
  then have "fired ?w el \<le> (if el \<in> animatedElements ?w then 1 else 0)"
    unfolding once_guard_def by blast
  then have "fired ?w el \<le> 1" by (simp split: if_splits)
  moreover have "count_list (dispatched ?w) (AnimateElement el) \<le> fired ?w el"
    using count_le_filter [of "dispatched ?w" "AnimateElement el"] by (simp add: fired_def)
  ultimately show ?thesis by simp
qed

text \<open>
  The bound is reached: an element that enters, leaves and enters again is dispatched
  exactly once, in each version.
\<close>

lemma entrance_enter_exit_enter:
  "dispatched
     (run_page MotionFull
        [Entrance (\<lambda>_. False) [\<lparr>target = 0, isIntersecting = True\<rparr>],
         Entrance (\<lambda>_. False) [\<lparr>target = 0, isIntersecting = False\<rparr>],
         Entrance (\<lambda>_. False) [\<lparr>target = 0, isIntersecting = True\<rparr>]]
        (setupObservers MotionFull two_page)) = [AnimateElement 0]
   \<and> dispatched
     (run_page MotionMinimal
        [Entrance (\<lambda>_. False) [\<lparr>target = 0, isIntersecting = True\<rparr>],
         Entrance (\<lambda>_. False) [\<lparr>target = 0, isIntersecting = False\<rparr>],
         Entrance (\<lambda>_. False) [\<lparr>target = 0, isIntersecting = True\<rparr>]]
        (setupObservers MotionMinimal two_page)) = [AnimateElement 0]
   \<and> dispatched
     (run_page AnimeJs
        [Entrance (\<lambda>_. False) [\<lparr>target = 0, isIntersecting = True\<rparr>],
         Entrance (\<lambda>_. False) [\<lparr>target = 0, isIntersecting = False\<rparr>],
         Entrance (\<lambda>_. False) [\<lparr>target = 0, isIntersecting = True\<rparr>]]
        (setupObservers AnimeJs two_page)) = [AnimateElement 0]"
  by (simp add: two_page_def page_eval parse_eval)

subsection \<open>Parallax: one recomputation per frame\<close>

lemma parallax_element_fields [simp]:
  "ticking (parallax_element vp ps el) = ticking ps"
  "frame_requests (parallax_element vp ps el) = frame_requests ps"
  "recomputed (parallax_element vp ps el) = recomputed ps"
  "listening (parallax_element vp ps el) = listening ps"
  by (simp_all add: parallax_element_def Let_def)

lemma handleScroll_fields [simp]:
  "ticking (handleScroll vp ps) = ticking ps"
  "frame_requests (handleScroll vp ps) = frame_requests ps"
  "recomputed (handleScroll vp ps) = recomputed ps"
  "listening (handleScroll vp ps) = listening ps"
proof -
  have "ticking (foldl (parallax_element vp) ps els) = ticking ps
      \<and> frame_requests (foldl (parallax_element vp) ps els) = frame_requests ps
      \<and> recomputed (foldl (parallax_element vp) ps els) = recomputed ps
      \<and> listening (foldl (parallax_element vp) ps els) = listening ps" for els
    by (induction els arbitrary: ps) simp_all
  then show
    "ticking (handleScroll vp ps) = ticking ps"
    "frame_requests (handleScroll vp ps) = frame_requests ps"
    "recomputed (handleScroll vp ps) = recomputed ps"
    "listening (handleScroll vp ps) = listening ps"
    by (simp_all add: handleScroll_def)
qed

lemma on_scroll_coalesced: "coalesced ps \<Longrightarrow> coalesced (on_scroll ps)"
  by (simp add: coalesced_def on_scroll_def)

lemma on_frame_idle:
  "frame_requests ps = 0 \<Longrightarrow> on_frame vp ps = ps\<lparr>frame_requests := 0, recomputed := recomputed ps @ [0]\<rparr>"
  by (simp add: on_frame_def)

lemma on_frame_once:
  "frame_requests ps = Suc 0 \<Longrightarrow>
     on_frame vp ps =
       (handleScroll vp ps)\<lparr>ticking := False, frame_requests := 0,
                             recomputed := recomputed ps @ [Suc 0]\<rparr>"
  by (simp add: on_frame_def frame_callback_def)

lemma on_frame_coalesced:
  assumes "coalesced ps"
  shows "coalesced (on_frame vp ps)"
proof (cases "ticking ps")
  case True
  with assms have n: "frame_requests ps = Suc 0" and r: "list_all (\<lambda>n. n \<le> 1) (recomputed ps)"
    by (simp_all add: coalesced_def)
  show ?thesis
    unfolding on_frame_once [OF n] coalesced_def using r by simp
next
  case False
  with assms have n: "frame_requests ps = 0" and r: "list_all (\<lambda>n. n \<le> 1) (recomputed ps)"
    by (simp_all add: coalesced_def)
  show ?thesis
    unfolding on_frame_idle [OF n] coalesced_def using r False by simp
qed

lemma run_parallax_coalesced: "coalesced ps \<Longrightarrow> coalesced (run_parallax evs ps)"
  unfolding run_parallax_def
proof (induction evs arbitrary: ps)
  case Nil
  then show ?case by simp
next
  case (Cons ev evs)
  have "coalesced (parallax_step ps ev)"
    using Cons.prems by (cases ev) (simp_all add: on_scroll_coalesced on_frame_coalesced)
  then show ?case using Cons.IH by simp
qed

lemma setupParallax_coalesced: "coalesced (setupParallax els attrs)"
  by (simp add: coalesced_def setupParallax_def Let_def)

lemma scroll_while_ticking: "ticking ps \<Longrightarrow> on_scroll ps = ps"
  by (simp add: on_scroll_def)

text \<open>
  C7. From set-up on, whatever scroll events and rendered frames follow: no frame runs
  \<^verbatim>\<open>handleScroll\<close> more than once, at most one frame callback is outstanding at any
  time, and while \<^verbatim>\<open>ticking\<close> is set a burst of any number of scroll events changes
  nothing (the events are dropped, not queued).
\<close>

theorem parallax_one_recomputation_per_frame:
  "list_all (\<lambda>n. n \<le> 1) (recomputed (run_parallax evs (setupParallax els attrs)))
   \<and> frame_requests (run_parallax evs (setupParallax els attrs)) \<le> 1
   \<and> (ticking (run_parallax evs (setupParallax els attrs))
        \<longrightarrow> run_parallax (replicate k Scroll) (run_parallax evs (setupParallax els attrs))
            = run_parallax evs (setupParallax els attrs))"
proof -
  let ?ps = "run_parallax evs (setupParallax els attrs)"
  have c: "coalesced ?ps"
    by (rule run_parallax_coalesced [OF setupParallax_coalesced])
  have drop: "ticking ps \<Longrightarrow> run_parallax (replicate k Scroll) ps = ps" for ps
    unfolding run_parallax_def by (induction k) (simp_all add: scroll_while_ticking)
  from c have "frame_requests ?ps \<le> 1" by (simp add: coalesced_def split: if_splits)
  with c drop show ?thesis by (simp add: coalesced_def)
qed

theorem parallax_one_recomputation_per_frame_witness:
  "ticking (run_parallax [Scroll] (setupParallax [0] (\<lambda>_. [''parallax'' \<mapsto> ''0.5''])))
   \<and> run_parallax (replicate 5 Scroll)
        (run_parallax [Scroll] (setupParallax [0] (\<lambda>_. [''parallax'' \<mapsto> ''0.5''])))
      = run_parallax [Scroll] (setupParallax [0] (\<lambda>_. [''parallax'' \<mapsto> ''0.5'']))"
proof -
  have t: "ticking (run_parallax [Scroll] (setupParallax [0] (\<lambda>_. [''parallax'' \<mapsto> ''0.5''])))"
    by (simp add: parallax_eval)
  with parallax_one_recomputation_per_frame
         [of "[Scroll]" "[0]" "\<lambda>_. [''parallax'' \<mapsto> ''0.5'']" 5]
  show ?thesis by blast
qed

text \<open>
  A burst of three scroll events before a frame gives one recomputation in that frame, a
  frame with no scroll event before it gives none; the offset written is
  \<open>500 \<times> 0.5 \<times> 0.1\<close>, negated for the direction \<^verbatim>\<open>down\<close>.
\<close>

lemma parallax_burst_example:
  "recomputed
     (run_parallax [Scroll, Scroll, Scroll, Frame page_vp, Frame page_vp, Scroll, Frame page_vp]
        (setupParallax [0] (\<lambda>_. [''parallax'' \<mapsto> ''0.5'', ''parallaxDirection'' \<mapsto> ''down''])))
     = [1, 0, 1]
   \<and> translateY
     (run_parallax [Scroll, Scroll, Scroll, Frame page_vp]
        (setupParallax [0] (\<lambda>_. [''parallax'' \<mapsto> ''0.5'', ''parallaxDirection'' \<mapsto> ''down'']))) 0
     = Some (Num (- 25))"
  by (simp add: parallax_eval parse_eval)



subsection \<open>Text reveal: the timer shows every element\<close>

















subsection \<open>Text reveal: the split of \<open>Hi there\<close>\<close>


subsection \<open>One seen set for both triggers\<close>

text \<open>
  Statement C8 of the specification does not hold as written. An element that carries both \<^verbatim>\<open>data-animate\<close> and
  \<^verbatim>\<open>data-stagger\<close> and is revealed to the entrance observer first never has its
  children animated: the stagger callback finds it in \<open>animatedElements\<close>. Revealed to
  the stagger observer alone, it is dispatched.
\<close>

theorem shared_seen_set_counterexample:
  "dispatched
     (run_page MotionFull
        [Entrance (\<lambda>_. False) [\<lparr>target = 0, isIntersecting = True\<rparr>],
         Group (\<lambda>_. False) [\<lparr>target = 0, isIntersecting = True\<rparr>]]
        (setupObservers MotionFull both_page))
     = [AnimateElement 0]
   \<and> dispatched
     (run_page MotionFull
        [Group (\<lambda>_. False) [\<lparr>target = 0, isIntersecting = True\<rparr>]]
        (setupObservers MotionFull both_page))
     = [AnimateStaggerChildren 0]"
  by (simp add: both_page_def page_eval parse_eval)

lemma handleIntersection_seen_skip:
  "target e \<in> animatedElements w \<Longrightarrow> handleIntersection v fails [e] w = (w, Returned)"
  by simp

lemma staggerIntersection_seen_skip:
  "target e \<in> animatedElements w \<Longrightarrow> staggerIntersection v fails [e] w = (w, Returned)"
  by simp

lemma handleIntersection_marks:
  assumes "isIntersecting e"
  shows "target e \<in> animatedElements (fst (handleIntersection v fails [e] w))"
proof (cases "target e \<in> animatedElements w")
  case True
  then show ?thesis by simp
next
  case False
  let ?w = "w\<lparr>animatedElements := insert (target e) (animatedElements w)\<rparr>"
  have "fst (handleIntersection v fails [e] w) = fst (animateElement v fails (target e) ?w)"
    using assms False by (simp split: prod.splits completion.splits)
  then show ?thesis by (simp add: animateElement_seen)
qed

lemma staggerIntersection_marks:
  assumes "isIntersecting e"
  shows "target e \<in> animatedElements (fst (staggerIntersection v fails [e] w))"
proof (cases "target e \<in> animatedElements w")
  case True
  then show ?thesis by simp
next
  case False
  let ?w = "w\<lparr>animatedElements := insert (target e) (animatedElements w)\<rparr>"
  have "fst (staggerIntersection v fails [e] w)
          = fst (animateStaggerChildren v fails (target e) ?w)"
    using assms False by (simp split: prod.splits completion.splits)
  then show ?thesis by (simp add: animateStaggerChildren_seen)
qed

text \<open>
  C8, as amended. The two triggers are separate observers with a callback each, and both
  callbacks test and extend the one set \<open>animatedElements\<close>: an intersecting entry
  handled by either callback leaves its target in the set, and the other callback then
  skips that target, changing nothing.
\<close>

theorem shared_seen_set:
  assumes "isIntersecting e"
  shows "target e \<in> animatedElements (fst (handleIntersection v f [e] w))
       \<and> staggerIntersection v g [e] (fst (handleIntersection v f [e] w))
           = (fst (handleIntersection v f [e] w), Returned)
       \<and> target e \<in> animatedElements (fst (staggerIntersection v f [e] w))
       \<and> handleIntersection v g [e] (fst (staggerIntersection v f [e] w))
           = (fst (staggerIntersection v f [e] w), Returned)"
  using handleIntersection_marks [OF assms] staggerIntersection_marks [OF assms]
        handleIntersection_seen_skip staggerIntersection_seen_skip
  by blast

theorem shared_seen_set_witness:
  "target \<lparr>target = 0, isIntersecting = True\<rparr>
     \<in> animatedElements
         (fst (handleIntersection MotionFull (\<lambda>_. False) [\<lparr>target = 0, isIntersecting = True\<rparr>]
                 (setupObservers MotionFull both_page)))
   \<and> staggerIntersection MotionFull (\<lambda>_. False) [\<lparr>target = 0, isIntersecting = True\<rparr>]
        (fst (handleIntersection MotionFull (\<lambda>_. False) [\<lparr>target = 0, isIntersecting = True\<rparr>]
                (setupObservers MotionFull both_page)))
       = (fst (handleIntersection MotionFull (\<lambda>_. False) [\<lparr>target = 0, isIntersecting = True\<rparr>]
                 (setupObservers MotionFull both_page)), Returned)"
proof -
  have i: "isIntersecting \<lparr>target = 0, isIntersecting = True\<rparr>" by simp
  from shared_seen_set [OF i, of MotionFull "\<lambda>_. False" "setupObservers MotionFull both_page" "\<lambda>_. False"]
  show ?thesis by blast
qed

subsection \<open>A failing primitive ends the batch\<close>







subsection \<open>The delays of a stagger group\<close>

lemma in_ms_stagger:
  "v \<noteq> AnimeJs \<Longrightarrow>
     in_ms v (stagger (js_div_const m 1000) i) = js_mul (Num (of_nat i)) m"
  by (cases m) (simp_all add: in_ms_def stagger_def)

lemma in_ms_div: "v \<noteq> AnimeJs \<Longrightarrow> in_ms v (js_div_const m 1000) = m"
  by (cases m) (simp_all add: in_ms_def)

text \<open>
  Statement C3 of the specification does not hold as written. In the minimal version a container whose
  \<^verbatim>\<open>data-stagger-delay\<close> is 200 gives its three children the delays 0, 30 and 60 ms: the
  step is the constant 30 and the attribute is not read.
\<close>

theorem stagger_delay_counterexample:
  "map (\<lambda>a. (targets a, map (delay_at (delay a)) [0, 1, 2]))
     (animate_calls (fst (animateStaggerChildren MotionMinimal (\<lambda>_. False) 0 grid_page)))
     = [([1, 2, 3], [Num 0, Num (30 / 1000), Num (60 / 1000)])]
   \<and> parseInt (or_default (dataset grid_page 0 ''staggerDelay'') ''100'') = Num 200"
  by (simp add: grid_page_def page_eval parse_eval stagger_def)

lemma hide_children_calls:
  "animate_calls (foldl (\<lambda>w2 child. set_opacity child s w2) x cs) = animate_calls x"
  by (induction cs arbitrary: x) (simp_all add: set_opacity_def)

lemma animateStaggerChildren_call:
  assumes "animateStaggerChildren v fails c w = (w', r)"
  shows "\<exists>a. animate_calls w' = animate_calls w @ [a]
           \<and> targets a = stagger_items w c
           \<and> delay a = Stagger (if v = AnimeJs then staggerDelayMs v (dataset w c)
                                 else js_div_const (staggerDelayMs v (dataset w c)) 1000)"
  using assms
  by (auto simp: animateStaggerChildren_def animate_def Let_def hide_children_calls
        split: prod.splits)

text \<open>
  C3, as amended. A reveal of a stagger container makes exactly one call of the primitive,
  on the container's items in document order, and the delay of the item at index \<open>i\<close>,
  in milliseconds, is \<open>i\<close> times the step. The step is the integer read from
  \<^verbatim>\<open>data-stagger-delay\<close>, 100 when the attribute is absent, in the full Motion One
  version and in the anime.js version; it is the constant 30 in the minimal version.
\<close>

theorem stagger_delay_by_index:
  assumes "animateStaggerChildren v fails c w = (w', r)"
  shows "\<exists>a. animate_calls w' = animate_calls w @ [a]
           \<and> targets a = stagger_items w c
           \<and> (\<forall>i. in_ms v (delay_at (delay a) i)
                    = js_mul (Num (of_nat i))
                        (if v = MotionMinimal then Num 30
                         else parseInt (or_default (dataset w c ''staggerDelay'') ''100'')))
           \<and> (v \<noteq> MotionMinimal \<and> dataset w c ''staggerDelay'' = None
                \<longrightarrow> (\<forall>i. in_ms v (delay_at (delay a) i) = Num (of_nat i * 100)))"
proof -
  let ?ms = "if v = MotionMinimal then Num 30
             else parseInt (or_default (dataset w c ''staggerDelay'') ''100'')"
  from animateStaggerChildren_call [OF assms] obtain a where
    calls: "animate_calls w' = animate_calls w @ [a]" and
    items: "targets a = stagger_items w c" and
    step: "delay a = Stagger (if v = AnimeJs then staggerDelayMs v (dataset w c)
                              else js_div_const (staggerDelayMs v (dataset w c)) 1000)"
    by blast
  have ms: "staggerDelayMs v (dataset w c) = ?ms"
    by (simp add: staggerDelayMs_def)
  have at: "in_ms v (delay_at (delay a) i) = js_mul (Num (of_nat i)) ?ms" for i
  proof (cases "v = AnimeJs")
    case True
    then show ?thesis by (simp add: step in_ms_def stagger_def staggerDelayMs_def)
  next
    case False
    then show ?thesis
      unfolding step ms using in_ms_stagger [OF False, of ?ms i] by simp
  qed
  have dflt: "parseInt (or_default None ''100'') = Num 100"
    by (simp add: parse_eval)
  have "in_ms v (delay_at (delay a) i) = Num (of_nat i * 100)"
    if "v \<noteq> MotionMinimal" "dataset w c ''staggerDelay'' = None" for i
    using at [of i] that by (simp add: dflt)
  with calls items at show ?thesis by blast
qed

theorem stagger_delay_by_index_witness:
  "\<exists>a. animate_calls (fst (animateStaggerChildren MotionFull (\<lambda>_. False) 0 grid_page))
          = animate_calls grid_page @ [a]
      \<and> targets a = [1, 2, 3]
      \<and> in_ms MotionFull (delay_at (delay a) 2) = Num 400"
proof -
  have run: "animateStaggerChildren MotionFull (\<lambda>_. False) 0 grid_page
               = (fst (animateStaggerChildren MotionFull (\<lambda>_. False) 0 grid_page),
                  snd (animateStaggerChildren MotionFull (\<lambda>_. False) 0 grid_page))"
    by simp
  have items: "stagger_items grid_page 0 = [1, 2, 3]"
    by (simp add: grid_page_def new_page_def)
  have ms: "parseInt (or_default (dataset grid_page 0 ''staggerDelay'') ''100'') = Num 200"
    by (simp add: grid_page_def new_page_def parse_eval)
  from stagger_delay_by_index [OF run] obtain a where
    "animate_calls (fst (animateStaggerChildren MotionFull (\<lambda>_. False) 0 grid_page))
       = animate_calls grid_page @ [a]"
    "targets a = stagger_items grid_page 0"
    "\<forall>i. in_ms MotionFull (delay_at (delay a) i)
           = js_mul (Num (of_nat i))
               (if MotionFull = MotionMinimal then Num 30
                else parseInt (or_default (dataset grid_page 0 ''staggerDelay'') ''100''))"
    by blast
  then have "animate_calls (fst (animateStaggerChildren MotionFull (\<lambda>_. False) 0 grid_page))
       = animate_calls grid_page @ [a]
      \<and> targets a = [1, 2, 3]
      \<and> in_ms MotionFull (delay_at (delay a) 2) = Num 400"
    by (simp add: items ms)
  then show ?thesis ..
qed

subsection \<open>The options of an entrance animation\<close>

text \<open>
  Statement C5 of the specification does not hold as written. In the minimal version the duration handed to the
  primitive is 0.3 s whether \<^verbatim>\<open>data-duration\<close> is 1200 or absent: neither the
  attribute's value nor 800 ms.
\<close>

theorem duration_option_counterexample:
  "map duration
     (animate_calls (fst (animateElement MotionMinimal (\<lambda>_. False) 0 (timed_page (Some ''1200'')))))
     = [Num (300 / 1000)]
   \<and> map duration
     (animate_calls (fst (animateElement MotionMinimal (\<lambda>_. False) 0 (timed_page None))))
     = [Num (300 / 1000)]
   \<and> parseInt (or_default (dataset (timed_page (Some ''1200'')) 0 ''duration'') ''800'') = Num 1200
   \<and> parseInt (or_default (dataset (timed_page None) 0 ''duration'') ''800'') = Num 800"
  by (simp add: timed_page_def page_eval parse_eval)

lemma animateElement_preset:
  assumes "animateElement v fails el w = (w', r)"
    and "map_of (animations v) (or_default (dataset w el ''animate'') ''fade-up'') = Some (kf, extra, ez)"
  shows "animate_calls w' = animate_calls w @
           [\<lparr> targets = [el], keyframes = kf,
              duration = (case extra of None \<Rightarrow> resolved_duration v (dataset w el)
                          | Some x \<Rightarrow> js_add (resolved_duration v (dataset w el)) (Num x)),
              delay = Fixed (resolved_delay v (dataset w el)), easing = Some ez \<rparr>]"
  using assms by (cases extra) (auto simp: animateElement_def animate_def Let_def resolved_kind_def)

lemma in_ms_delay:
  "in_ms v (resolved_delay v ds) = parseInt (or_default (ds ''delay'') ''0'')"
  by (cases v) (simp_all add: resolved_delay_def in_ms_div, simp add: in_ms_def)

lemma in_ms_duration:
  "in_ms v (resolved_duration v ds)
     = (if v = MotionMinimal then Num 300 else parseInt (or_default (ds ''duration'') ''800''))"
  by (cases v) (simp_all add: resolved_duration_def in_ms_div, simp_all add: in_ms_def)

text \<open>
  C5, as amended. For an element whose kind (the attribute, \<^verbatim>\<open>fade-up\<close> when absent or
  empty) is a preset, the entrance dispatch makes one call of the primitive on the element
  with the preset's keyframes and easing. The delay, in milliseconds, is the integer read
  from \<^verbatim>\<open>data-delay\<close>, 0 when absent. The duration is a base duration plus what the
  preset adds; the base, in milliseconds, is the integer read from \<^verbatim>\<open>data-duration\<close>,
  800 when absent, in the full Motion One version and the anime.js version, and the
  constant 300 in the minimal version. The Motion One versions convert to seconds once,
  by a division by 1000; the anime.js version passes milliseconds.
\<close>

theorem entrance_option_resolution:
  assumes "animateElement v fails el w = (w', r)"
    and "map_of (animations v) (or_default (dataset w el ''animate'') ''fade-up'') = Some (kf, extra, ez)"
  shows "\<exists>a d. animate_calls w' = animate_calls w @ [a]
           \<and> targets a = [el] \<and> keyframes a = kf \<and> easing a = Some ez
           \<and> delay a = Fixed (resolved_delay v (dataset w el))
           \<and> in_ms v (resolved_delay v (dataset w el))
               = parseInt (or_default (dataset w el ''delay'') ''0'')
           \<and> duration a = (case extra of None \<Rightarrow> d | Some x \<Rightarrow> js_add d (Num x))
           \<and> in_ms v d
               = (if v = MotionMinimal then Num 300
                  else parseInt (or_default (dataset w el ''duration'') ''800''))
           \<and> (dataset w el ''delay'' = None \<longrightarrow> in_ms v (resolved_delay v (dataset w el)) = Num 0)
           \<and> (v \<noteq> MotionMinimal \<and> dataset w el ''duration'' = None \<longrightarrow> in_ms v d = Num 800)"
proof -
  let ?a = "\<lparr> targets = [el], keyframes = kf,
              duration = (case extra of None \<Rightarrow> resolved_duration v (dataset w el)
                          | Some x \<Rightarrow> js_add (resolved_duration v (dataset w el)) (Num x)),
              delay = Fixed (resolved_delay v (dataset w el)), easing = Some ez \<rparr>"
  have calls: "animate_calls w' = animate_calls w @ [?a]"
    by (rule animateElement_preset [OF assms])
  have z: "parseInt (or_default None ''0'') = Num 0" and e: "parseInt (or_default None ''800'') = Num 800"
    by (simp_all add: parse_eval)
  show ?thesis
    by (rule exI [of _ ?a], rule exI [of _ "resolved_duration v (dataset w el)"])
       (use calls in \<open>simp add: in_ms_delay in_ms_duration z e\<close>)
qed

theorem entrance_option_resolution_witness:
  "\<exists>a d. animate_calls (fst (animateElement MotionFull (\<lambda>_. False) 0 (timed_page None)))
            = animate_calls (timed_page None) @ [a]
      \<and> targets a = [0]
      \<and> duration a = js_add d (Num (1 / 5))
      \<and> in_ms MotionFull d = Num 800"
proof -
  let ?w = "timed_page None"
  have run: "animateElement MotionFull (\<lambda>_. False) 0 ?w
               = (fst (animateElement MotionFull (\<lambda>_. False) 0 ?w),
                  snd (animateElement MotionFull (\<lambda>_. False) 0 ?w))"
    by simp
  have kind: "map_of (animations MotionFull) (or_default (dataset ?w 0 ''animate'') ''fade-up'')
      = Some (fade ''perspective(1000px) rotateX(90deg) translateY(40px)''
                   ''perspective(1000px) rotateX(0deg) translateY(0px)'', Some (1 / 5), ease_out)"
    by (simp add: timed_page_def new_page_def or_default_def)
  have absent: "MotionFull \<noteq> MotionMinimal \<and> dataset ?w 0 ''duration'' = None"
    by (simp add: timed_page_def new_page_def)
  from entrance_option_resolution [OF run kind] absent
  show ?thesis by fastforce
qed

subsection \<open>An unknown kind in the anime.js version\<close>

lemma wiggle_not_preset:
  "map_of (animations AnimeJs) ''wiggle'' = None"
  "''wiggle'' \<notin> set object_prototype_keys"
  by (simp_all add: object_prototype_keys_def)

lemma animateElement_left_hidden:
  "left_hidden w \<Longrightarrow> left_hidden (fst (animateElement AnimeJs fails el w))"
  by (simp add: left_hidden_def animateElement_def Let_def resolved_kind_def or_default_def
        wiggle_not_preset)

lemma animateStaggerChildren_left_hidden:
  "left_hidden w \<Longrightarrow> left_hidden (fst (animateStaggerChildren AnimeJs fails el w))"
  by (simp add: left_hidden_def animateStaggerChildren_def Let_def animate_def split: prod.splits)

lemma seen_left_hidden:
  "left_hidden w \<Longrightarrow> left_hidden (w\<lparr>animatedElements := s\<rparr>)"
  by (simp add: left_hidden_def)

lemma handleIntersection_left_hidden:
  "left_hidden w \<Longrightarrow> left_hidden (fst (handleIntersection AnimeJs fails es w))"
proof (induction es arbitrary: w)
  case Nil
  then show ?case by simp
next
  case (Cons e es)
  show ?case
  proof (cases "isIntersecting e \<and> target e \<notin> animatedElements w")
    case False
    with Cons show ?thesis by auto
  next
    case True
    let ?w = "w\<lparr>animatedElements := insert (target e) (animatedElements w)\<rparr>"
    obtain w0 c where run: "animateElement AnimeJs fails (target e) ?w = (w0, c)"
      by (cases "animateElement AnimeJs fails (target e) ?w")
    have h: "left_hidden w0"
      using animateElement_left_hidden
              [OF seen_left_hidden [OF Cons.prems, of "insert (target e) (animatedElements w)"],
               where fails = fails and el = "target e"]
      by (simp add: run)
    show ?thesis
    proof (cases c)
      case Returned
      with True run Cons.IH [OF h] show ?thesis by simp
    next
      case Threw
      with True run h show ?thesis by simp
    qed
  qed
qed

lemma staggerIntersection_left_hidden:
  "left_hidden w \<Longrightarrow> left_hidden (fst (staggerIntersection AnimeJs fails es w))"
proof (induction es arbitrary: w)
  case Nil
  then show ?case by simp
next
  case (Cons e es)
  show ?case
  proof (cases "isIntersecting e \<and> target e \<notin> animatedElements w")
    case False
    with Cons show ?thesis by auto
  next
    case True
    let ?w = "w\<lparr>animatedElements := insert (target e) (animatedElements w)\<rparr>"
    obtain w0 c where run: "animateStaggerChildren AnimeJs fails (target e) ?w = (w0, c)"
      by (cases "animateStaggerChildren AnimeJs fails (target e) ?w")
    have h: "left_hidden w0"
      using animateStaggerChildren_left_hidden
              [OF seen_left_hidden [OF Cons.prems, of "insert (target e) (animatedElements w)"],
               where fails = fails and el = "target e"]
      by (simp add: run)
    show ?thesis
    proof (cases c)
      case Returned
      with True run Cons.IH [OF h] show ?thesis by simp
    next
      case Threw
      with True run h show ?thesis by simp
    qed
  qed
qed

lemma run_page_left_hidden: "left_hidden w \<Longrightarrow> left_hidden (run_page AnimeJs bs w)"
  unfolding run_page_def
proof (induction bs arbitrary: w)
  case Nil
  then show ?case by simp
next
  case (Cons b bs)
  have "left_hidden (deliver AnimeJs w b)"
    using Cons.prems
    by (cases b) (simp_all add: handleIntersection_left_hidden staggerIntersection_left_hidden)
  then show ?case using Cons.IH by simp
qed

lemma setup_left_hidden: "left_hidden (setupObservers AnimeJs wiggle_page)"
  by (simp add: left_hidden_def wiggle_page_def page_eval)

text \<open>
  C2. The anime.js version sets the opacity of every entrance element to 0 at set-up and
  has no branch for a kind outside the table. For an element whose kind is \<open>wiggle\<close>
  the opacity stays 0 whatever batches follow; the reveal invokes the dispatch once and
  makes no call of the primitive. The full Motion One version, on the same page, shows
  the element (opacity 1).
\<close>

theorem unknown_kind_left_hidden:
  "opacity (run_page AnimeJs bs (setupObservers AnimeJs wiggle_page)) 0 = Some ''0''
   \<and> dispatched
        (run_page AnimeJs [Entrance (\<lambda>_. False) [\<lparr>target = 0, isIntersecting = True\<rparr>]]
           (setupObservers AnimeJs wiggle_page)) = [AnimateElement 0]
   \<and> animate_calls
        (run_page AnimeJs [Entrance (\<lambda>_. False) [\<lparr>target = 0, isIntersecting = True\<rparr>]]
           (setupObservers AnimeJs wiggle_page)) = []
   \<and> opacity
        (run_page MotionFull [Entrance (\<lambda>_. False) [\<lparr>target = 0, isIntersecting = True\<rparr>]]
           (setupObservers MotionFull wiggle_page)) 0 = Some ''1''"
proof -
  have "left_hidden (run_page AnimeJs bs (setupObservers AnimeJs wiggle_page))"
    by (rule run_page_left_hidden [OF setup_left_hidden])
  then have "opacity (run_page AnimeJs bs (setupObservers AnimeJs wiggle_page)) 0 = Some ''0''"
    by (simp add: left_hidden_def)
  moreover have
    "dispatched
        (run_page AnimeJs [Entrance (\<lambda>_. False) [\<lparr>target = 0, isIntersecting = True\<rparr>]]
           (setupObservers AnimeJs wiggle_page)) = [AnimateElement 0]
     \<and> animate_calls
        (run_page AnimeJs [Entrance (\<lambda>_. False) [\<lparr>target = 0, isIntersecting = True\<rparr>]]
           (setupObservers AnimeJs wiggle_page)) = []"
    by (simp add: wiggle_page_def page_eval parse_eval)
  moreover have
    "opacity
        (run_page MotionFull [Entrance (\<lambda>_. False) [\<lparr>target = 0, isIntersecting = True\<rparr>]]
           (setupObservers MotionFull wiggle_page)) 0 = Some ''1''"
    by (simp add: wiggle_page_def page_eval parse_eval)
  ultimately show ?thesis by blast
qed

subsection \<open>The texts a counter shows\<close>













lemma shown_writes:
  "text_writes cp = ws @ map (\<lambda>p. (el, f p)) ps \<Longrightarrow>
     shown cp el = map snd (filter (\<lambda>(x, t). x = el) ws) @ map f ps"
  by (simp add: shown_def filter_map comp_def)









text \<open>The texts of two runs, frame by frame.\<close>

lemma counter_three_and_a_half:
  "shown (fst (counterIntersection (\<lambda>_. [0, 1 / 3, 1 / 2, 99 / 100]) (\<lambda>_. False)
                [\<lparr>target = 0, isIntersecting = True\<rparr>] (counter_on ''3.5''))) 0
     = [Text ''0.0'', Text ''1.2'', Text ''1.8'', Text ''3.5'', Text ''3.5'']
   \<and> shown (fst (counterIntersection (\<lambda>_. [0, 1 / 3, 1 / 2, 99 / 100]) (\<lambda>_. False)
                [\<lparr>target = 0, isIntersecting = True\<rparr>] (counter_on ''42''))) 0
     = [Text ''0'', Text ''14'', Text ''21'', Text ''42'', Text ''42'']"
  by code_simp

end
